theory Spec2Isabelle
  imports Complex_Main "HOL-Library.AList"
begin

section \<open>Python values shared by both modules\<close>

text \<open>
  Exceptions that the modelled functions can raise.  \<open>AtomValenceException\<close> and
  \<open>KekulizeException\<close> are RDKit's subclasses of \<open>ValueError\<close>; the constructor
  \<open>ValueError\<close> stands for every other \<open>ValueError\<close>.
\<close>

datatype py_error =
    ZeroDivisionError
  | IndexError
  | TypeError
  | AttributeError
  | AtomValenceException
  | KekulizeException
  | ValueError

text \<open>\<open>except ValueError\<close> also catches the two RDKit subclasses.\<close>

definition is_ValueError :: "py_error \<Rightarrow> bool" where
  "is_ValueError e = (e = ValueError \<or> e = AtomValenceException \<or> e = KekulizeException)"

text \<open>Sequencing of a computation that may raise.\<close>

definition bind_err :: "py_error + 'a \<Rightarrow> ('a \<Rightarrow> py_error + 'b) \<Rightarrow> py_error + 'b" where
  "bind_err m f = (case m of Inl e \<Rightarrow> Inl e | Inr x \<Rightarrow> f x)"

text \<open>
  \<open>data[lo:hi]\<close> on a list: a negative bound counts from the end, and both bounds are
  clamped to the list.
\<close>

definition slice_bound :: "nat \<Rightarrow> int \<Rightarrow> nat" where
  "slice_bound n i = (if i < 0 then nat (max (i + int n) 0) else min (nat i) n)"

definition py_slice :: "'a list \<Rightarrow> int \<Rightarrow> int \<Rightarrow> 'a list" where
  "py_slice xs lo hi =
     drop (slice_bound (length xs) lo) (take (slice_bound (length xs) hi) xs)"

text \<open>\<open>range(n)\<close>: empty when \<open>n \<le> 0\<close>.\<close>

definition py_range :: "int \<Rightarrow> int list" where
  "py_range n = map int [0..<nat n]"

text \<open>
  The numbers that reach the report: a Python \<open>int\<close>, a float (a Python float or a
  zero-dimensional tensor, which \<open>.item()\<close> turns into one), and the two special floats
  that the code can produce without raising: \<open>NaN\<close> (a mean over nothing) and \<open>-inf\<close>
  (a maximum over nothing).  Floats are modelled by reals; rounding is outside the model.
\<close>

datatype num = PyInt int | PyFloat real | NaN | NegInf

section \<open>docking_utils.split_list\<close>

text \<open>
  The body of the \<open>for\<close> loop of \<open>split_list\<close>; the loop state is the pair
  \<open>(chunks, start)\<close>.
\<close>

definition split_step ::
  "'a list \<Rightarrow> int \<Rightarrow> int \<Rightarrow> 'a list list \<times> int \<Rightarrow> int \<Rightarrow> 'a list list \<times> int" where
  "split_step data chunk_size remainder st i =
     (let chunk_end = snd st + chunk_size + (if i < remainder then 1 else 0)
      in (fst st @ [py_slice data (snd st) chunk_end], chunk_end))"

text \<open>\<open>len(data) // num_chunks\<close> raises for \<open>num_chunks = 0\<close>.\<close>

definition split_list :: "'a list \<Rightarrow> int \<Rightarrow> py_error + 'a list list" where
  "split_list data num_chunks =
     (if num_chunks = 0 then Inl ZeroDivisionError
      else
        let chunk_size = int (length data) div num_chunks;
            remainder = int (length data) mod num_chunks
        in Inr (fst (foldl (split_step data chunk_size remainder) ([], 0)
                       (py_range num_chunks))))"

text \<open>The value of \<open>start\<close> after \<open>k\<close> rounds of the loop.\<close>

definition split_start :: "int \<Rightarrow> int \<Rightarrow> nat \<Rightarrow> int" where
  "split_start q r k = int k * q + min (int k) r"

section \<open>analyze_strict: the metric accumulators\<close>

text \<open>
  Modelled from the spec: the classes \<open>MeanMetric\<close> and \<open>MaxMetric\<close> come from the
  metrics library.  A mean accumulator is ``a running (sum, weight) pair'', whose value
  is ``undefined when weight = 0'' (the library divides \<open>0.0\<close> by \<open>0.0\<close> and gives
  \<open>NaN\<close> without raising).  \<open>update\<close> adds \<open>value * weight\<close> and \<open>weight\<close>, summed
  over the entries when \<open>value\<close> is a tensor of several entries; an empty tensor changes
  nothing.
\<close>

record mean_metric =
  mean_value :: real
  weight :: real

definition mean_fresh :: mean_metric where
  "mean_fresh = \<lparr>mean_value = 0, weight = 0\<rparr>"

definition mean_update :: "mean_metric \<Rightarrow> real \<Rightarrow> real \<Rightarrow> mean_metric" where
  "mean_update m v w = \<lparr>mean_value = mean_value m + v * w, weight = weight m + w\<rparr>"

definition mean_update_tensor :: "mean_metric \<Rightarrow> real list \<Rightarrow> mean_metric" where
  "mean_update_tensor m vs =
     \<lparr>mean_value = mean_value m + sum_list vs, weight = weight m + real (length vs)\<rparr>"

definition mean_compute :: "mean_metric \<Rightarrow> num" where
  "mean_compute m = (if weight m = 0 then NaN else PyFloat (mean_value m / weight m))"

text \<open>A maximum accumulator starts at \<open>-inf\<close>, here \<open>None\<close>.\<close>

type_synonym max_metric = "real option"

definition max_update_tensor :: "max_metric \<Rightarrow> real list \<Rightarrow> max_metric" where
  "max_update_tensor m vs =
     (if vs = [] then m
      else case m of None \<Rightarrow> Some (Max (set vs))
                   | Some x \<Rightarrow> Some (max x (Max (set vs))))"


section \<open>analyze_strict: molecules and the chemistry toolkit\<close>

text \<open>
  RDKit is an external collaborator.  An \<open>rdmol\<close> records what the toolkit answers on
  one molecule, call by call, in the order \<open>compute_validity\<close> asks:
  the bond-order adjacency matrix before sanitization, the outcome of \<open>GetMolFrags\<close>
  (an exception or the number of fragments), the outcome of \<open>SanitizeMol\<close> on the single
  fragment, and on the sanitized fragment the implicit hydrogens and radical electrons
  per atom, the adjacency matrix and the SMILES.  \<open>sanitize_whole\<close> is the outcome of
  \<open>SanitizeMol\<close> on the whole molecule, as \<open>compute_sanitize_validity\<close> calls it.
\<close>

record rdmol =
  initial_adj :: "real list list"
  mol_frags :: "py_error + nat"
  sanitize_frag :: "py_error option"
  implicit_hs :: "nat list"
  adj2 :: "real list list"
  radical_electrons :: "nat list"
  smiles :: string
  sanitize_whole :: "py_error option"

text \<open>
  A generated molecule: the fields the evaluation reads.  \<open>stability\<close> is the triple
  \<open>(mol_stable, at_stable, num_bonds)\<close> that \<open>check_stability\<close> (or, without bond types,
  \<open>check_stability_without_bonds\<close>) answers for it.
\<close>

record molecule =
  rdkit_mol :: "rdmol option"
  bond_types :: "nat list list option"
  charges :: "int list option"
  stability :: "bool \<times> real \<times> nat"

text \<open>The keys of the \<open>Counter\<close> that \<open>compute_validity\<close> fills; a missing key counts 0.\<close>

datatype category =
    disconnected
  | implicit_hydrogens
  | wrong_bo
  | radicals
  | passed
  | wrong_atom_valence
  | kekulization
  | other

type_synonym counter = "category \<Rightarrow> nat"

definition all_categories :: "category list" where
  "all_categories =
     [disconnected, implicit_hydrogens, wrong_bo, radicals, passed,
      wrong_atom_valence, kekulization, other]"

definition counter_total :: "counter \<Rightarrow> nat" where
  "counter_total c = sum_list (map c all_categories)"

text \<open>What the code prints.\<close>

datatype message =
    Analyzing_stability
  | Error_messages "nat list"
  | Novelty_skipped
  | Validity_over nat num
  | Components_mean_max nat num num
  | Connected_components nat real
  | Sparsity_level int
  | Too_many_edges
  | No_valid_smiles_kl
  | No_valid_smiles_qed

type_synonym fingerprint = "bool list"

text \<open>
  The remaining collaborators, from \<open>experiments.sampling.utils\<close> and the toolkit: the
  functions are parameters of the model.  The distance functions are already applied to
  the reference statistics of the chosen split.
\<close>

record env =
  canonicalize :: "bool \<Rightarrow> string \<Rightarrow> string option"
  get_fingerprints_from_smileslist :: "string list \<Rightarrow> fingerprint list"
  get_similarity :: "fingerprint \<times> fingerprint \<Rightarrow> real"
  TanimotoSimilarity :: "fingerprint \<Rightarrow> fingerprint \<Rightarrow> real"
  get_random_subset :: "string list \<Rightarrow> nat \<Rightarrow> string list"
  number_nodes_distance :: "molecule list \<Rightarrow> real"
  atom_types_distance :: "molecule list \<Rightarrow> real"
  charge_distance :: "molecule list \<Rightarrow> real"
  bond_types_distance :: "molecule list \<Rightarrow> real \<times> real"
  valency_distance :: "molecule list \<Rightarrow> real"
  bond_length_distance :: "molecule list \<Rightarrow> real"
  angle_distance :: "molecule list \<Rightarrow> real \<times> real list"
  dihedral_distance :: "molecule list \<Rightarrow> real"
  calculate_pc_descriptors :: "string list \<Rightarrow> string list \<Rightarrow> real list list"
  continuous_kldiv :: "real list \<Rightarrow> real list \<Rightarrow> real"
  discrete_kldiv :: "real list \<Rightarrow> real list \<Rightarrow> real"
  calculate_internal_pairwise_similarities :: "string list \<Rightarrow> real list list"
  get_mols_list :: "string list \<Rightarrow> string list"
  qed_score :: "string \<Rightarrow> real"

text \<open>
  Modelled from the spec: \<open>canonicalize_list\<close> is in \<open>experiments.sampling.utils\<close>.
  It returns the canonical strings ``deduplicated, first-occurrence order preserved'',
  and with them the positions of the entries it dropped as duplicates; a string with no
  canonical form is left out before that.
\<close>

fun remove_duplicates :: "'a list \<Rightarrow> nat list \<Rightarrow> nat \<Rightarrow> 'a list \<Rightarrow> 'a list \<times> nat list" where
  "remove_duplicates seen ids i [] = (seen, ids)"
| "remove_duplicates seen ids i (x # xs) =
     (if x \<in> set seen then remove_duplicates seen (ids @ [i]) (Suc i) xs
      else remove_duplicates (seen @ [x]) ids (Suc i) xs)"

definition canonicalize_list :: "env \<Rightarrow> bool \<Rightarrow> string list \<Rightarrow> string list \<times> nat list" where
  "canonicalize_list E include_stereocenters smiles_list =
     remove_duplicates [] [] 0
       (List.map_filter (canonicalize E include_stereocenters) smiles_list)"

section \<open>analyze_strict: BasicMolecularMetrics\<close>

text \<open>
  The instance: the attributes set by \<open>__init__\<close> and \<open>__call__\<close>, and the standard
  output, which the methods append to.  \<open>train_subset\<close> does not exist before the
  first \<open>__call__\<close> sets it.
\<close>

record metrics =
  train_smiles :: "string list option"
  train_fps :: "fingerprint list"
  test :: bool
  atom_decoder :: "string list"
  number_samples :: nat
  train_subset :: "string list option"
  atom_stable :: mean_metric
  mol_stable :: mean_metric
  validity_metric :: mean_metric
  uniqueness :: mean_metric
  novelty :: mean_metric
  mean_components :: mean_metric
  max_components :: max_metric
  num_nodes_w1 :: mean_metric
  atom_types_tv :: mean_metric
  edge_types_tv :: mean_metric
  charge_w1 :: mean_metric
  valency_w1 :: mean_metric
  bond_lengths_w1 :: mean_metric
  angles_w1 :: mean_metric
  dihedrals_w1 :: mean_metric
  stdout :: "message list"

definition print :: "metrics \<Rightarrow> message \<Rightarrow> metrics" where
  "print st msg = st\<lparr>stdout := stdout st @ [msg]\<rparr>"

definition pc_descriptor_subset :: "string list" where
  "pc_descriptor_subset =
     [''BertzCT'', ''MolLogP'', ''MolWt'', ''TPSA'', ''NumHAcceptors'', ''NumHDonors'',
      ''NumRotatableBonds'', ''NumAliphaticRings'', ''NumAromaticRings'']"


text \<open>All fifteen accumulators hold nothing.\<close>

definition accumulators_reset :: "metrics \<Rightarrow> bool" where
  "accumulators_reset st \<longleftrightarrow>
     atom_stable st = mean_fresh \<and> mol_stable st = mean_fresh \<and>
     validity_metric st = mean_fresh \<and> uniqueness st = mean_fresh \<and>
     novelty st = mean_fresh \<and> mean_components st = mean_fresh \<and>
     max_components st = None \<and> num_nodes_w1 st = mean_fresh \<and>
     atom_types_tv st = mean_fresh \<and> edge_types_tv st = mean_fresh \<and>
     charge_w1 st = mean_fresh \<and> valency_w1 st = mean_fresh \<and>
     bond_lengths_w1 st = mean_fresh \<and> angles_w1 st = mean_fresh \<and>
     dihedrals_w1 st = mean_fresh"

subsection \<open>compute_validity\<close>

text \<open>The local variables that the \<open>for\<close> loop of \<open>compute_validity\<close> updates.\<close>

record validity_loop =
  valid_smiles :: "string list"
  valid_ids :: "nat list"
  valid_molecules :: "molecule list"
  num_components :: "nat list"
  error_message :: counter

definition validity_loop_init :: validity_loop where
  "validity_loop_init =
     \<lparr>valid_smiles = [], valid_ids = [], valid_molecules = [], num_components = [],
      error_message = (\<lambda>_. 0)\<rparr>"

text \<open>\<open>error_message[c] += 1\<close>\<close>

definition count :: "validity_loop \<Rightarrow> category \<Rightarrow> validity_loop" where
  "count L c = L\<lparr>error_message := (error_message L)(c := error_message L c + 1)\<rparr>"

text \<open>The three \<open>except\<close> clauses, in their order; any other exception propagates.\<close>

definition except_clauses :: "validity_loop \<Rightarrow> py_error \<Rightarrow> py_error + validity_loop" where
  "except_clauses L e =
     (if e = AtomValenceException then Inr (count L wrong_atom_valence)
      else if e = KekulizeException then Inr (count L kekulization)
      else if is_ValueError e then Inr (count L other)
      else Inl e)"

text \<open>
  \<open>np.all(np.abs(initial_adj - adj2) < 1)\<close>.  Both matrices are over the atoms of the
  one fragment, so they have the same shape.
\<close>

definition bond_orders_kept :: "real list list \<Rightarrow> real list list \<Rightarrow> bool" where
  "bond_orders_kept a b =
     list_all (\<lambda>(r1, r2). list_all (\<lambda>(x, y). \<bar>x - y\<bar> < 1) (zip r1 r2)) (zip a b)"

text \<open>
  One round of the loop, for the molecule \<open>mol\<close> at index \<open>i\<close>.  \<open>mol_frags[0]\<close> on an
  empty tuple raises \<open>IndexError\<close>, which no clause catches.
\<close>

definition validity_body ::
  "bool \<Rightarrow> validity_loop \<Rightarrow> nat \<times> molecule \<Rightarrow> py_error + validity_loop" where
  "validity_body strict L im =
     (case rdkit_mol (snd im) of
        None \<Rightarrow> Inr L
      | Some rd \<Rightarrow>
          (case mol_frags rd of
             Inl e \<Rightarrow> except_clauses L e
           | Inr n \<Rightarrow>
               let L1 = L\<lparr>num_components := num_components L @ [n]\<rparr> in
               if n > 1 then Inr (count L1 disconnected)
               else if n = 0 then Inl IndexError
               else
                 (case sanitize_frag rd of
                    Some e \<Rightarrow> except_clauses L1 e
                  | None \<Rightarrow>
                      if sum_list (implicit_hs rd) > 0 then Inr (count L1 implicit_hydrogens)
                      else if strict \<and> \<not> bond_orders_kept (initial_adj rd) (adj2 rd)
                        then Inr (count L1 wrong_bo)
                      else if strict \<and> sum_list (radical_electrons rd) > 0
                        then Inr (count L1 radicals)
                      else Inr (count
                        (L1\<lparr>valid_smiles := valid_smiles L1 @ [smiles rd],
                            valid_ids := valid_ids L1 @ [fst im],
                            valid_molecules := valid_molecules L1 @ [snd im]\<rparr>) passed))))"

fun validity_for ::
  "bool \<Rightarrow> validity_loop \<Rightarrow> (nat \<times> molecule) list \<Rightarrow> py_error + validity_loop" where
  "validity_for strict L [] = Inr L"
| "validity_for strict L (im # rest) =
     bind_err (validity_body strict L im) (\<lambda>L'. validity_for strict L' rest)"

text \<open>
  The category one molecule is counted in, read off the branches of the loop body:
  \<open>None\<close> when the molecule is counted nowhere.
\<close>

definition category_of :: "bool \<Rightarrow> molecule \<Rightarrow> category option" where
  "category_of strict mol =
     (case rdkit_mol mol of
        None \<Rightarrow> None
      | Some rd \<Rightarrow>
          (case mol_frags rd of
             Inl e \<Rightarrow>
               (if e = AtomValenceException then Some wrong_atom_valence
                else if e = KekulizeException then Some kekulization
                else if is_ValueError e then Some other else None)
           | Inr n \<Rightarrow>
               if n > 1 then Some disconnected
               else if n = 0 then None
               else
                 (case sanitize_frag rd of
                    Some e \<Rightarrow>
                      (if e = AtomValenceException then Some wrong_atom_valence
                       else if e = KekulizeException then Some kekulization
                       else if is_ValueError e then Some other else None)
                  | None \<Rightarrow>
                      if sum_list (implicit_hs rd) > 0 then Some implicit_hydrogens
                      else if strict \<and> \<not> bond_orders_kept (initial_adj rd) (adj2 rd)
                        then Some wrong_bo
                      else if strict \<and> sum_list (radical_electrons rd) > 0
                        then Some radicals
                      else Some passed)))"

text \<open>
  The whole method.  It returns
  \<open>(valid_smiles, valid_molecules, connected_components, error_message)\<close> and the
  instance; \<open>len(valid_smiles) / len(generated)\<close> raises on an empty input.
\<close>

definition compute_validity ::
  "env \<Rightarrow> metrics \<Rightarrow> molecule list \<Rightarrow> int \<Rightarrow> bool \<Rightarrow>
   py_error + ((string list \<times> molecule list \<times> real \<times> counter) \<times> metrics)" where
  "compute_validity E st generated local_rank strict =
     bind_err (validity_for strict validity_loop_init (List.enumerate 0 generated)) (\<lambda>L.
       let st1 = (if local_rank = 0
                  then print st (Error_messages (map (error_message L)
                         [disconnected, kekulization, wrong_atom_valence, implicit_hydrogens,
                          radicals, wrong_bo, other, passed]))
                  else st)
       in
       if length generated = 0 then Inl ZeroDivisionError
       else
         let st2 = st1\<lparr>validity_metric :=
                     mean_update (validity_metric st1)
                       (real (length (valid_smiles L)) / real (length generated))
                       (real (length generated))\<rparr>;
             nc = map real (num_components L);
             st3 = st2\<lparr>mean_components := mean_update_tensor (mean_components st2) nc,
                       max_components := max_update_tensor (max_components st2) nc\<rparr>;
             not_connected = 100 * real (error_message L disconnected) / real (length generated);
             connected_components = 100 - not_connected;
             cl = canonicalize_list E True (valid_smiles L);
             valid_molecules' =
               map snd (filter (\<lambda>im. fst im \<notin> set (snd cl))
                          (List.enumerate 0 (valid_molecules L)))
         in Inr ((fst cl, valid_molecules', connected_components, error_message L), st3))"

subsection \<open>compute_sanitize_validity, compute_uniqueness, compute_novelty\<close>



text \<open>\<open>list(set(valid))\<close>: only its length and its members are used.\<close>

definition compute_uniqueness :: "string list \<Rightarrow> py_error + (string list \<times> real)" where
  "compute_uniqueness valid =
     (if length valid = 0 then Inl ZeroDivisionError
      else Inr (remdups valid, real (length (remdups valid)) / real (length valid)))"


subsection \<open>evaluate\<close>


subsection \<open>Means, maxima and reshaping of arrays\<close>




text \<open>\<open>a.max(axis=1)\<close>: a reduction over no entries raises \<open>ValueError\<close>.\<close>

definition max_axis1 :: "real list list \<Rightarrow> py_error + real list" where
  "max_axis1 rows =
     (if rows = [] \<or> list_ex (\<lambda>r. r = []) rows then Inl ValueError
      else Inr (map (\<lambda>r. Max (set r)) rows))"


text \<open>\<open>d[:, i]\<close> on an array of rows.\<close>

definition column :: "real list list \<Rightarrow> nat \<Rightarrow> py_error + real list" where
  "column d i =
     (if list_ex (\<lambda>row. length row \<le> i) d then Inl IndexError
      else Inr (map (\<lambda>row. row ! i) d))"

subsection \<open>compute_statistics\<close>

text \<open>
  The branch on \<open>sparsity_level\<close>: it yields \<open>(angles_w1, angles_w1_per_type)\<close> and
  the instance.
\<close>

definition angles_branch ::
  "env \<Rightarrow> metrics \<Rightarrow> molecule list \<Rightarrow> real \<Rightarrow> int \<Rightarrow> (real \<times> real list) \<times> metrics" where
  "angles_branch E st molecules sparsity_level local_rank =
     (if sparsity_level < 0.7
      then ((0, replicate (length (atom_decoder st)) (- 1)),
            (if local_rank = 0 then print st Too_many_edges else st))
      else (angle_distance E molecules, st))"

text \<open>The branch taken when the first molecule has bond types.\<close>

definition bonds_branch :: "env \<Rightarrow> metrics \<Rightarrow> molecule list \<Rightarrow> int \<Rightarrow> metrics" where
  "bonds_branch E st molecules local_rank =
     (let edge_types_tv_v = fst (bond_types_distance E molecules);
          sparsity_level = snd (bond_types_distance E molecules);
          st1 = print st (Sparsity_level \<lfloor>100 * sparsity_level\<rfloor>);
          st2 = st1\<lparr>edge_types_tv := mean_update (edge_types_tv st1) edge_types_tv_v 1\<rparr>;
          st3 = st2\<lparr>valency_w1 := mean_update (valency_w1 st2) (valency_distance E molecules) 1\<rparr>;
          st4 = st3\<lparr>bond_lengths_w1 :=
                  mean_update (bond_lengths_w1 st3) (bond_length_distance E molecules) 1\<rparr>;
          ab = angles_branch E st4 molecules sparsity_level local_rank;
          st5 = (snd ab)\<lparr>angles_w1 := mean_update (angles_w1 (snd ab)) (fst (fst ab)) 1\<rparr>
      in st5\<lparr>dihedrals_w1 :=
              mean_update (dihedrals_w1 st5) (dihedral_distance E molecules) 1\<rparr>)"

definition compute_statistics ::
  "env \<Rightarrow> metrics \<Rightarrow> molecule list \<Rightarrow> int \<Rightarrow> py_error + ((string \<times> num) list \<times> metrics)" where
  "compute_statistics E st molecules local_rank =
     (let st1 = st\<lparr>num_nodes_w1 :=
                  mean_update (num_nodes_w1 st) (number_nodes_distance E molecules) 1\<rparr>;
          st2 = st1\<lparr>atom_types_tv :=
                  mean_update (atom_types_tv st1) (atom_types_distance E molecules) 1\<rparr>
      in case molecules of
           [] \<Rightarrow> Inl IndexError
         | m0 # _ \<Rightarrow>
             let no_charges = (charges m0 = None);
                 st3 = (if \<not> no_charges
                        then st2\<lparr>charge_w1 :=
                               mean_update (charge_w1 st2) (charge_distance E molecules) 1\<rparr>
                        else st2);
                 no_bonds = (bond_types m0 = None);
                 st4 = (if \<not> no_bonds then bonds_branch E st3 molecules local_rank else st3);
                 statistics_log =
                   [(''sampling/NumNodesW1'', mean_compute (num_nodes_w1 st4)),
                    (''sampling/AtomTypesTV'', mean_compute (atom_types_tv st4)),
                    (''sampling/EdgeTypesTV'',
                       if \<not> no_bonds then mean_compute (edge_types_tv st4) else PyFloat (- 1)),
                    (''sampling/ChargeW1'',
                       if \<not> no_charges then mean_compute (charge_w1 st4) else PyFloat (- 1)),
                    (''sampling/ValencyW1'',
                       if \<not> no_bonds then mean_compute (valency_w1 st4) else PyFloat (- 1)),
                    (''sampling/BondLengthsW1'',
                       if \<not> no_bonds then mean_compute (bond_lengths_w1 st4) else PyFloat (- 1)),
                    (''sampling/AnglesW1'',
                       if \<not> no_bonds then mean_compute (angles_w1 st4) else PyFloat (- 1)),
                    (''sampling/DihedralsW1'',
                       if \<not> no_bonds then mean_compute (dihedrals_w1 st4) else PyFloat (- 1))]
             in Inr (statistics_log, st4))"

subsection \<open>Similarity with the training set, diversity\<close>





subsection \<open>get_kl_divergence\<close>

text \<open>
  The two \<open>for\<close> loops over descriptor columns: \<open>kldiv_loop f d_chembl d_sampled kldivs is\<close>
  stores \<open>f\<close> of the two columns under the descriptor's name, for each index of \<open>is\<close>.
\<close>

fun kldiv_loop ::
  "(real list \<Rightarrow> real list \<Rightarrow> real) \<Rightarrow> real list list \<Rightarrow> real list list \<Rightarrow>
   (string \<times> real) list \<Rightarrow> nat list \<Rightarrow> py_error + (string \<times> real) list" where
  "kldiv_loop f d_chembl d_sampled kldivs [] = Inr kldivs"
| "kldiv_loop f d_chembl d_sampled kldivs (i # rest) =
     bind_err (column d_chembl i) (\<lambda>baseline.
     bind_err (column d_sampled i) (\<lambda>sampled.
       kldiv_loop f d_chembl d_sampled
         (AList.update (pc_descriptor_subset ! i) (f baseline sampled) kldivs) rest))"

text \<open>The dictionary \<open>kldivs\<close> as it stands before the scores are taken.\<close>

definition kldivs_table :: "env \<Rightarrow> metrics \<Rightarrow> string list \<Rightarrow> py_error + (string \<times> real) list" where
  "kldivs_table E st generated_smiles =
     (case train_subset st of
        None \<Rightarrow> Inl AttributeError
      | Some train_sub \<Rightarrow>
          let unique_molecules = fst (canonicalize_list E False generated_smiles);
              d_sampled = calculate_pc_descriptors E unique_molecules pc_descriptor_subset;
              d_chembl = calculate_pc_descriptors E train_sub pc_descriptor_subset
          in bind_err (kldiv_loop (continuous_kldiv E) d_chembl d_sampled [] [0..<4]) (\<lambda>k1.
             bind_err (kldiv_loop (discrete_kldiv E) d_chembl d_sampled k1 [4..<9]) (\<lambda>k2.
             bind_err (max_axis1 (calculate_internal_pairwise_similarities E train_sub)) (\<lambda>chembl_sim.
             bind_err (max_axis1 (calculate_internal_pairwise_similarities E unique_molecules))
               (\<lambda>sampled_sim.
                  Inr (AList.update ''internal_similarity''
                         (continuous_kldiv E chembl_sim sampled_sim) k2))))))"

definition get_kl_divergence :: "env \<Rightarrow> metrics \<Rightarrow> string list \<Rightarrow> py_error + real" where
  "get_kl_divergence E st generated_smiles =
     bind_err (kldivs_table E st generated_smiles) (\<lambda>kldivs.
       let partial_scores = map (\<lambda>score. exp (- score)) (map snd kldivs)
       in Inr (sum_list partial_scores / real (length partial_scores)))"

subsection \<open>The call of an instance\<close>




section \<open>Notions used to state the properties\<close>

text \<open>How many molecules of a batch fall in a category.\<close>

definition tally :: "bool \<Rightarrow> molecule list \<Rightarrow> counter" where
  "tally strict ms c = length (filter (\<lambda>m. category_of strict m = Some c) ms)"

text \<open>
  The entries of a bond-order adjacency matrix are the toolkit's bond orders
  (0, 1, 1.5, 2, 2.5, 3, ...): whole multiples of one half.
\<close>

definition is_bond_order :: "real \<Rightarrow> bool" where
  "is_bond_order x \<longleftrightarrow> 0 \<le> x \<and> 2 * x \<in> \<int>"

definition bond_order_matrix :: "real list list \<Rightarrow> bool" where
  "bond_order_matrix a = list_all (list_all is_bond_order) a"

text \<open>
  In the words of the specification: some entry changes by more than the tolerance
  0.5 between the two matrices.
\<close>

definition bond_order_changed :: "real list list \<Rightarrow> real list list \<Rightarrow> bool" where
  "bond_order_changed a b =
     list_ex (\<lambda>(r1, r2). list_ex (\<lambda>(x, y). \<bar>x - y\<bar> > 0.5) (zip r1 r2)) (zip a b)"

text \<open>
  One round of the loop excludes its molecule with category \<open>c\<close>: from \<open>L\<close> to
  \<open>L'\<close> the count of \<open>c\<close> alone goes up by one, and nothing is appended to the
  valid SMILES, indices or molecules.
\<close>

definition excluded_as :: "validity_loop \<Rightarrow> validity_loop \<Rightarrow> category \<Rightarrow> bool" where
  "excluded_as L L' c \<longleftrightarrow>
     error_message L' = (error_message L)(c := error_message L c + 1) \<and>
     valid_smiles L' = valid_smiles L \<and>
     valid_ids L' = valid_ids L \<and>
     valid_molecules L' = valid_molecules L"

text \<open>
  One round of the loop keeps the molecule \<open>mol\<close> of index \<open>i\<close>: it is counted as
  \<open>passed\<close>, and its SMILES, its index and the molecule are appended.
\<close>

definition kept_as_valid ::
  "validity_loop \<Rightarrow> validity_loop \<Rightarrow> nat \<Rightarrow> molecule \<Rightarrow> string \<Rightarrow> bool" where
  "kept_as_valid L L' i mol smi \<longleftrightarrow>
     error_message L' = (error_message L)(passed := error_message L passed + 1) \<and>
     valid_smiles L' = valid_smiles L @ [smi] \<and>
     valid_ids L' = valid_ids L @ [i] \<and>
     valid_molecules L' = valid_molecules L @ [mol]"

text \<open>
  The valid molecules that \<open>compute_validity\<close> returns; \<open>None\<close> when it raises.
\<close>

definition returned_valid ::
  "env \<Rightarrow> metrics \<Rightarrow> molecule list \<Rightarrow> int \<Rightarrow> bool \<Rightarrow> molecule list option" where
  "returned_valid E st generated local_rank strict =
     (case compute_validity E st generated local_rank strict of
        Inl e \<Rightarrow> None
      | Inr (r, st') \<Rightarrow> Some (fst (snd r)))"

text \<open>
  The counts that \<open>compute_validity\<close> returns, in the order of \<open>all_categories\<close>;
  \<open>None\<close> when it raises.
\<close>

definition error_counts ::
  "env \<Rightarrow> metrics \<Rightarrow> molecule list \<Rightarrow> int \<Rightarrow> bool \<Rightarrow> nat list option" where
  "error_counts E st generated local_rank strict =
     (case compute_validity E st generated local_rank strict of
        Inl e \<Rightarrow> None
      | Inr (r, st') \<Rightarrow> Some (map (snd (snd (snd r))) all_categories))"



section \<open>Concrete inputs\<close>

text \<open>Ethane: one fragment, sanitizes, nothing changes.\<close>

definition rd_ethane :: rdmol where
  "rd_ethane =
     \<lparr>initial_adj = [[0, 1], [1, 0]], mol_frags = Inr 1, sanitize_frag = None,
      implicit_hs = [0, 0], adj2 = [[0, 1], [1, 0]], radical_electrons = [0, 0],
      smiles = ''CC'', sanitize_whole = None\<rparr>"

definition mol_of :: "rdmol \<Rightarrow> molecule" where
  "mol_of rd =
     \<lparr>rdkit_mol = Some rd, bond_types = Some [[0, 1], [1, 0]], charges = Some [0, 0],
      stability = (True, 2, 2)\<rparr>"

text \<open>Two fragments.\<close>

definition rd_disconnected :: rdmol where
  "rd_disconnected = rd_ethane\<lparr>mol_frags := Inr 2, smiles := ''C.C''\<rparr>"

text \<open>
  One fragment that sanitizes, with a bond order raised from 1 to 2 by sanitization and
  one unpaired electron left.
\<close>

definition rd_changed_radical :: rdmol where
  "rd_changed_radical =
     rd_ethane\<lparr>adj2 := [[0, 2], [2, 0]], radical_electrons := [1, 0], smiles := ''C=[CH]''\<rparr>"

text \<open>
  One fragment that sanitizes, with a bond order raised from 1 to 2 by sanitization and
  an implicit hydrogen.
\<close>

definition rd_changed_implicit :: rdmol where
  "rd_changed_implicit =
     rd_ethane\<lparr>adj2 := [[0, 2], [2, 0]], implicit_hs := [1, 0], smiles := ''C=C''\<rparr>"

text \<open>An aromatic bond (1.5) written as a single bond by sanitization: a change of 0.5.\<close>

definition rd_kekulized :: rdmol where
  "rd_kekulized = rd_ethane\<lparr>initial_adj := [[0, 1.5], [1.5, 0]], smiles := ''cc''\<rparr>"

definition fp_of :: "string \<Rightarrow> fingerprint" where
  "fp_of s = map (\<lambda>c. c = CHR ''C'') s"

definition ex_env :: env where
  "ex_env =
     \<lparr>canonicalize = (\<lambda>stereo s. Some s),
      get_fingerprints_from_smileslist = map fp_of,
      get_similarity = (\<lambda>p. if fst p = snd p then 1 else 1 / 2),
      TanimotoSimilarity = (\<lambda>a b. if a = b then 1 else 1 / 2),
      get_random_subset = (\<lambda>train n. take n train),
      number_nodes_distance = (\<lambda>ms. 1 / 4),
      atom_types_distance = (\<lambda>ms. 1 / 4),
      charge_distance = (\<lambda>ms. 1 / 4),
      bond_types_distance = (\<lambda>ms. (1 / 4, 0.7)),
      valency_distance = (\<lambda>ms. 1 / 4),
      bond_length_distance = (\<lambda>ms. 1 / 4),
      angle_distance = (\<lambda>ms. (1 / 4, [1 / 4, 1 / 4])),
      dihedral_distance = (\<lambda>ms. 1 / 4),
      calculate_pc_descriptors = (\<lambda>ss names. map (\<lambda>s. map (\<lambda>n. 1) names) ss),
      continuous_kldiv = (\<lambda>b s. 0),
      discrete_kldiv = (\<lambda>b s. 0),
      calculate_internal_pairwise_similarities =
        (\<lambda>ss. map (\<lambda>s. map (\<lambda>t. if s = t then 1 else 0) ss) ss),
      get_mols_list = (\<lambda>ss. ss),
      qed_score = (\<lambda>s. 1 / 2)\<rparr>"

text \<open>A new instance, as \<open>__init__\<close> leaves it, for the training set \<open>train\<close>.\<close>

definition new_metrics :: "string list option \<Rightarrow> metrics" where
  "new_metrics train =
     \<lparr>train_smiles = train,
      train_fps = (case train of None \<Rightarrow> [] | Some ss \<Rightarrow> map fp_of ss),
      test = False, atom_decoder = [''C'', ''H''], number_samples = 0, train_subset = None,
      atom_stable = mean_fresh, mol_stable = mean_fresh, validity_metric = mean_fresh,
      uniqueness = mean_fresh, novelty = mean_fresh, mean_components = mean_fresh,
      max_components = None, num_nodes_w1 = mean_fresh, atom_types_tv = mean_fresh,
      edge_types_tv = mean_fresh, charge_w1 = mean_fresh, valency_w1 = mean_fresh,
      bond_lengths_w1 = mean_fresh, angles_w1 = mean_fresh, dihedrals_w1 = mean_fresh,
      stdout = []\<rparr>"

text \<open>What \<open>compute_statistics\<close> reports under a key; \<open>None\<close> when it raises.\<close>

definition reported_statistic ::
  "env \<Rightarrow> metrics \<Rightarrow> molecule list \<Rightarrow> string \<Rightarrow> num option" where
  "reported_statistic E st molecules key =
     (case compute_statistics E st molecules 0 of
        Inl e \<Rightarrow> None
      | Inr (statistics_log, st') \<Rightarrow> map_of statistics_log key)"

text \<open>The same collaborators, with a sparsity level just under the threshold.\<close>

definition ex_env_sparse :: env where
  "ex_env_sparse = ex_env\<lparr>bond_types_distance := (\<lambda>ms. (1 / 4, 0.6999))\<rparr>"

text \<open>
  The instance after one call on a batch of one disconnected molecule, for the training
  set \<open>[''CC'']\<close>: what the stability loop and \<open>evaluate\<close> accumulated is still there.
\<close>

definition leftover :: metrics where
  "leftover =
     (new_metrics (Some [''CC'']))
       \<lparr>atom_stable := \<lparr>mean_value = 2, weight = 2\<rparr>,
        mol_stable := \<lparr>mean_value = 1, weight = 1\<rparr>,
        validity_metric := \<lparr>mean_value = 0, weight = 1\<rparr>,
        mean_components := \<lparr>mean_value = 2, weight = 1\<rparr>,
        max_components := Some 2,
        stdout := [Analyzing_stability, Error_messages [1, 0, 0, 0, 0, 0, 0, 0],
                   Validity_over 1 (PyFloat 0),
                   Components_mean_max 1 (PyFloat 2) (PyFloat 2),
                   Connected_components 1 0]\<rparr>"

section \<open>Properties of split_list\<close>

lemma split_start_Suc:
  "split_start q r (Suc k) = split_start q r k + q + (if int k < r then 1 else 0)"
  by (auto simp: split_start_def algebra_simps min_def)

lemma py_slice_nonneg:
  "0 \<le> lo \<Longrightarrow> lo \<le> hi \<Longrightarrow> hi \<le> int (length xs) \<Longrightarrow>
   py_slice xs lo hi = drop (nat lo) (take (nat hi) xs)"
  by (auto simp: py_slice_def slice_bound_def min_def)

lemma py_range_Suc: "py_range (int (Suc k)) = py_range (int k) @ [int k]"
  unfolding py_range_def nat_int by simp

lemma py_range_0: "py_range 0 = []"
  by (simp add: py_range_def)

lemma split_start_mono:
  assumes q: "0 \<le> q" and r: "0 \<le> r" and kn: "k \<le> n"
  shows "split_start q r k \<le> split_start q r n"
proof -
  have "int k * q \<le> int n * q" using q kn by (simp add: mult_right_mono)
  moreover have "min (int k) r \<le> min (int n) r" using kn by simp
  ultimately show ?thesis unfolding split_start_def by linarith
qed

lemma split_start_nonneg: "0 \<le> q \<Longrightarrow> 0 \<le> r \<Longrightarrow> 0 \<le> split_start q r k"
  unfolding split_start_def by simp

text \<open>
  The loop invariant: after \<open>k\<close> rounds there are \<open>k\<close> chunks, they hold the first
  \<open>split_start q r k\<close> elements in order, and each has the length the round gave it.
\<close>

lemma split_loop_inv:
  assumes q: "0 \<le> q" and r: "0 \<le> r" and le: "split_start q r k \<le> int (length data)"
  shows "\<exists>chunks.
       foldl (split_step data q r) ([], 0) (py_range (int k)) = (chunks, split_start q r k)
     \<and> length chunks = k
     \<and> concat chunks = take (nat (split_start q r k)) data
     \<and> (\<forall>i<k. int (length (chunks ! i)) = q + (if int i < r then 1 else 0))"
  using le
proof (induction k)
  case 0
  then show ?case using r by (simp add: py_range_0 split_start_def)
next
  case (Suc k)
  have mono: "split_start q r k \<le> split_start q r (Suc k)"
    using split_start_mono[OF q r, of k "Suc k"] by simp
  with Suc.prems have "split_start q r k \<le> int (length data)" by simp
  from Suc.IH[OF this] obtain chunks where
    f: "foldl (split_step data q r) ([], 0) (py_range (int k)) = (chunks, split_start q r k)"
    and l: "length chunks = k"
    and c: "concat chunks = take (nat (split_start q r k)) data"
    and s: "\<forall>i<k. int (length (chunks ! i)) = q + (if int i < r then 1 else 0)"
    by blast
  let ?s = "split_start q r k" and ?e = "split_start q r (Suc k)"
  have nn: "0 \<le> ?s" using split_start_nonneg[OF q r] .
  have sl: "py_slice data ?s ?e = drop (nat ?s) (take (nat ?e) data)"
    using py_slice_nonneg[OF nn mono Suc.prems] .
  have step: "foldl (split_step data q r) ([], 0) (py_range (int (Suc k)))
      = (chunks @ [py_slice data ?s ?e], ?e)"
    unfolding py_range_Suc foldl_append f
    by (simp add: split_step_def split_start_Suc Let_def)
  have len: "int (length (py_slice data ?s ?e)) = q + (if int k < r then 1 else 0)"
    using Suc.prems nn mono unfolding sl by (simp add: split_start_Suc split: if_splits)
  have cc: "concat (chunks @ [py_slice data ?s ?e]) = take (nat ?e) data"
  proof -
    have le: "nat ?s \<le> nat ?e" using mono nn by simp
    have "take (nat ?s) data @ drop (nat ?s) (take (nat ?e) data) = take (nat ?e) data"
      using le by (metis append_take_drop_id min.absorb1 take_take)
    then show ?thesis unfolding sl using c by simp
  qed
  have ss: "\<forall>i<Suc k. int (length ((chunks @ [py_slice data ?s ?e]) ! i))
              = q + (if int i < r then 1 else 0)"
    using s l len by (auto simp: nth_append less_Suc_eq)
  show ?case
    unfolding step using l cc ss by (intro exI[of _ "chunks @ [py_slice data ?s ?e]"]) simp
qed

text \<open>
  Claim C10.  For every list \<open>data\<close> and every \<open>num_chunks \<ge> 1\<close>, \<open>split_list\<close>
  returns (it does not raise) exactly \<open>num_chunks\<close> chunks whose concatenation in order
  is \<open>data\<close>; the first \<open>len(data) mod num_chunks\<close> chunks have
  \<open>len(data) div num_chunks + 1\<close> elements and the others \<open>len(data) div num_chunks\<close>.
\<close>

theorem split_list_chunks:
  assumes "1 \<le> num_chunks"
  shows "\<exists>chunks. split_list data num_chunks = Inr chunks
     \<and> int (length chunks) = num_chunks
     \<and> concat chunks = data
     \<and> (\<forall>i < length chunks. int (length (chunks ! i)) =
          (if int i < int (length data) mod num_chunks
           then int (length data) div num_chunks + 1
           else int (length data) div num_chunks))"
proof -
  let ?n = "int (length data)"
  let ?q = "?n div num_chunks" and ?r = "?n mod num_chunks"
  have q: "0 \<le> ?q" using assms by (simp add: pos_imp_zdiv_nonneg_iff)
  have r: "0 \<le> ?r" and rl: "?r < num_chunks" using assms by simp_all
  have st: "split_start ?q ?r (nat num_chunks) = ?n"
  proof -
    have "min num_chunks ?r = ?r" using rl by simp
    then show ?thesis using assms by (simp add: split_start_def)
  qed
  from split_loop_inv[OF q r, of "nat num_chunks" data] st
  obtain chunks where
    f: "foldl (split_step data ?q ?r) ([], 0) (py_range (int (nat num_chunks))) = (chunks, ?n)"
    and l: "length chunks = nat num_chunks"
    and c: "concat chunks = take (nat ?n) data"
    and s: "\<forall>i<nat num_chunks. int (length (chunks ! i)) = ?q + (if int i < ?r then 1 else 0)"
    by auto
  have "split_list data num_chunks = Inr chunks"
    using assms f by (simp add: split_list_def Let_def)
  moreover have "int (length chunks) = num_chunks" using l assms by simp
  moreover have "concat chunks = data" using c by simp
  moreover have "\<forall>i < length chunks. int (length (chunks ! i)) =
          (if int i < ?r then ?q + 1 else ?q)" using s l by auto
  ultimately show ?thesis by blast
qed

text \<open>Seven elements in three chunks: sizes 3, 2, 2.\<close>

theorem split_list_chunks_witness:
  "(1::int) \<le> 3 \<and> split_list [1,2,3,4,5,6,7::nat] 3 = Inr [[1,2,3],[4,5],[6,7]]"
proof -
  have "split_list [1,2,3,4,5,6,7::nat] 3 = Inr [[1,2,3],[4,5],[6,7]]"
    by code_simp
  then show ?thesis using split_list_chunks[of 3 "[1,2,3,4,5,6,7::nat]"] by simp
qed

section \<open>Properties of compute_validity\<close>

lemma count_error_message:
  "error_message (count L c) = (error_message L)(c := error_message L c + 1)"
  by (simp add: count_def)

lemma except_clauses_category:
  assumes "(if e = AtomValenceException then Some wrong_atom_valence
            else if e = KekulizeException then Some kekulization
            else if is_ValueError e then Some other else None) = Some c"
  shows "\<exists>L'. except_clauses L e = Inr L'
           \<and> error_message L' = (error_message L)(c := error_message L c + 1)"
  using assms by (auto simp: except_clauses_def count_error_message split: if_splits)

lemma validity_body_category:
  assumes "category_of strict (snd im) = Some c"
  shows "\<exists>L'. validity_body strict L im = Inr L'
           \<and> error_message L' = (error_message L)(c := error_message L c + 1)"
proof (cases "rdkit_mol (snd im)")
  case None
  with assms show ?thesis by (simp add: category_of_def)
next
  case (Some rd)
  show ?thesis
  proof (cases "mol_frags rd")
    case (Inl e)
    with Some assms show ?thesis
      using except_clauses_category[of e c L]
      by (simp add: category_of_def validity_body_def)
  next
    case (Inr n)
    show ?thesis
    proof (cases "sanitize_frag rd")
      case None
      note rd = \<open>rdkit_mol (snd im) = Some rd\<close>
      consider (many) "n > 1" | (zero) "n = 0" | (one) "n = 1" by linarith
      then show ?thesis
      proof cases
        case many
        with rd Inr None assms show ?thesis
          by (simp add: category_of_def validity_body_def Let_def count_error_message del: sum_list_eq_0_iff)
      next
        case zero
        with rd Inr None assms show ?thesis
          by (simp add: category_of_def)
      next
        case one
        consider (ih) "sum_list (implicit_hs rd) > 0"
          | (bo) "\<not> sum_list (implicit_hs rd) > 0"
                 "strict \<and> \<not> bond_orders_kept (initial_adj rd) (adj2 rd)"
          | (ra) "\<not> sum_list (implicit_hs rd) > 0"
                 "\<not> (strict \<and> \<not> bond_orders_kept (initial_adj rd) (adj2 rd))"
                 "strict \<and> sum_list (radical_electrons rd) > 0"
          | (ok) "\<not> sum_list (implicit_hs rd) > 0"
                 "\<not> (strict \<and> \<not> bond_orders_kept (initial_adj rd) (adj2 rd))"
                 "\<not> (strict \<and> sum_list (radical_electrons rd) > 0)"
          by blast
        then show ?thesis
        proof cases
          case ih
          with one rd Inr None assms show ?thesis
            by (simp add: category_of_def validity_body_def Let_def count_error_message del: sum_list_eq_0_iff)
        next
          case bo
          with one rd Inr None assms show ?thesis
            by (simp add: category_of_def validity_body_def Let_def count_error_message del: sum_list_eq_0_iff)
        next
          case ra
          with one rd Inr None assms show ?thesis
            by (simp add: category_of_def validity_body_def Let_def count_error_message del: sum_list_eq_0_iff)
        next
          case ok
          with one rd Inr None assms show ?thesis
            by (auto simp add: category_of_def validity_body_def Let_def count_error_message
                     simp del: sum_list_eq_0_iff)
        qed
      qed
    next
      case (Some e)
      note rd = \<open>rdkit_mol (snd im) = Some rd\<close>
      consider (many) "n > 1" | (zero) "n = 0" | (one) "n = 1" by linarith
      then show ?thesis
      proof cases
        case many
        with rd Inr Some assms show ?thesis
          by (simp add: category_of_def validity_body_def Let_def count_error_message del: sum_list_eq_0_iff)
      next
        case zero
        with rd Inr Some assms show ?thesis
          by (simp add: category_of_def)
      next
        case one
        with rd Inr Some assms show ?thesis
          using except_clauses_category[of e c "L\<lparr>num_components := num_components L @ [n]\<rparr>"]
          by (simp add: category_of_def validity_body_def Let_def)
      qed
    qed
  qed
qed

lemma validity_body_no_rdmol:
  "rdkit_mol (snd im) = None \<Longrightarrow> validity_body strict L im = Inr L"
  by (simp add: validity_body_def)

lemma validity_for_counts:
  assumes "\<forall>im\<in>set ims. category_of strict (snd im) \<noteq> None \<or> rdkit_mol (snd im) = None"
  shows "\<exists>L'. validity_for strict L ims = Inr L'
           \<and> (\<forall>c. error_message L' c = error_message L c + tally strict (map snd ims) c)"
  using assms
proof (induction ims arbitrary: L)
  case Nil
  then show ?case by (simp add: tally_def)
next
  case (Cons im ims)
  show ?case
  proof (cases "category_of strict (snd im)")
    case None
    with Cons.prems have n: "rdkit_mol (snd im) = None" by simp
    from Cons.IH[of L] Cons.prems obtain L' where
      "validity_for strict L ims = Inr L'"
      "\<forall>c. error_message L' c = error_message L c + tally strict (map snd ims) c"
      by auto
    then show ?thesis using None n
      by (simp add: validity_body_no_rdmol bind_err_def tally_def)
  next
    case (Some c0)
    from validity_body_category[OF Some, of L] obtain L1 where
      b: "validity_body strict L im = Inr L1"
      and e: "error_message L1 = (error_message L)(c0 := error_message L c0 + 1)"
      by blast
    from Cons.IH[of L1] Cons.prems obtain L' where
      "validity_for strict L1 ims = Inr L'"
      "\<forall>c. error_message L' c = error_message L1 c + tally strict (map snd ims) c"
      by auto
    then show ?thesis using Some b e
      by (auto simp: bind_err_def tally_def)
  qed
qed

lemma counter_total_upd: "counter_total (f(c := f c + 1)) = counter_total f + 1"
  by (cases c) (simp_all add: counter_total_def all_categories_def)

lemma counter_total_tally:
  "\<forall>m\<in>set ms. category_of strict m \<noteq> None \<Longrightarrow> counter_total (tally strict ms) = length ms"
proof (induction ms)
  case Nil
  then show ?case by (simp add: counter_total_def all_categories_def tally_def)
next
  case (Cons m ms)
  then obtain c where c: "category_of strict m = Some c" by auto
  have "tally strict (m # ms) = (tally strict ms)(c := tally strict ms c + 1)"
    using c by (auto simp: tally_def fun_eq_iff)
  then have "counter_total (tally strict (m # ms)) = counter_total (tally strict ms) + 1"
    by (simp only: counter_total_upd)
  then show ?case using Cons by simp
qed

lemma map_snd_enumerate: "map snd (List.enumerate k xs) = xs"
  by (simp add: enumerate_eq_zip)

text \<open>
  Claim C6.  When every molecule of a non-empty batch yields a category (so every
  \<open>rdkit_mol\<close> is there and no exception escapes the loop), \<open>compute_validity\<close>
  returns, the counts of all categories, \<open>passed\<close> included, add up to the number of
  input molecules, and each count is the number of molecules of that one category: no
  molecule is counted twice.
\<close>

theorem compute_validity_counts:
  assumes cat: "\<forall>mol\<in>set generated. category_of strict mol \<noteq> None"
    and ne: "generated \<noteq> []"
  shows "\<exists>r st'. compute_validity E st generated local_rank strict = Inr (r, st')
           \<and> counter_total (snd (snd (snd r))) = length generated
           \<and> (\<forall>c. snd (snd (snd r)) c
                  = length (filter (\<lambda>mol. category_of strict mol = Some c) generated))"
proof -
  have "\<forall>im\<in>set (List.enumerate 0 generated).
          category_of strict (snd im) \<noteq> None \<or> rdkit_mol (snd im) = None"
    using cat by (auto simp: enumerate_eq_zip dest: set_zip_rightD)
  from validity_for_counts[OF this, of validity_loop_init] obtain L where
    f: "validity_for strict validity_loop_init (List.enumerate 0 generated) = Inr L"
    and e: "\<forall>c. error_message L c = tally strict generated c"
    by (auto simp: map_snd_enumerate validity_loop_init_def)
  have em: "error_message L = tally strict generated" using e by (simp add: fun_eq_iff)
  have tot: "counter_total (error_message L) = length generated"
    unfolding em using counter_total_tally[OF cat] .
  show ?thesis
    using f ne tot em
    by (simp add: compute_validity_def bind_err_def Let_def tally_def)
qed

lemmas ex_defs = rd_ethane_def rd_disconnected_def rd_changed_radical_def rd_kekulized_def
  rd_changed_implicit_def mol_of_def

lemma cat_ethane: "category_of True (mol_of rd_ethane) = Some passed"
  by (simp add: category_of_def ex_defs bond_orders_kept_def)

lemma cat_disc: "category_of True (mol_of rd_disconnected) = Some disconnected"
  by (simp add: category_of_def ex_defs)

text \<open>A batch of one disconnected and one valid molecule.\<close>

theorem compute_validity_counts_witness:
  "category_of True (mol_of rd_disconnected) = Some disconnected
   \<and> category_of True (mol_of rd_ethane) = Some passed
   \<and> [mol_of rd_disconnected, mol_of rd_ethane] \<noteq> []
   \<and> error_counts ex_env (new_metrics None) [mol_of rd_disconnected, mol_of rd_ethane] 0 True
       = Some [1, 0, 0, 0, 1, 0, 0, 0]"
proof -
  have h: "\<forall>mol\<in>set [mol_of rd_disconnected, mol_of rd_ethane]. category_of True mol \<noteq> None"
    by (simp add: cat_ethane cat_disc)
  have ne: "[mol_of rd_disconnected, mol_of rd_ethane] \<noteq> []" by simp
  from compute_validity_counts[OF h ne, of ex_env "new_metrics None" 0]
  obtain r st' where
    "compute_validity ex_env (new_metrics None) [mol_of rd_disconnected, mol_of rd_ethane] 0 True
       = Inr (r, st')"
    "\<forall>c. snd (snd (snd r)) c
         = length (filter (\<lambda>mol. category_of True mol = Some c)
                     [mol_of rd_disconnected, mol_of rd_ethane])"
    by blast
  then show ?thesis
    by (simp add: error_counts_def all_categories_def cat_ethane cat_disc)
qed


text \<open>
  Claim C7.  On an empty list \<open>compute_validity\<close> is not guarded: the division by
  the input count raises \<open>ZeroDivisionError\<close>.
\<close>

theorem compute_validity_empty:
  "compute_validity E st [] local_rank strict = Inl ZeroDivisionError"
  by (simp add: compute_validity_def bind_err_def Let_def enumerate_eq_zip)



subsection \<open>The strict checks\<close>

text \<open>Between bond orders, a change of less than 1 is a change of at most one half.\<close>

lemma half_steps:
  assumes "is_bond_order x" and "is_bond_order y"
  shows "\<bar>x - y\<bar> < 1 \<longleftrightarrow> \<not> \<bar>x - y\<bar> > 0.5"
proof -
  from assms obtain m n :: int where m: "2 * x = of_int m" and n: "2 * y = of_int n"
    unfolding is_bond_order_def Ints_def by auto
  have d: "x - y = of_int (m - n) / 2" using m n by simp
  have a: "\<bar>x - y\<bar> = of_int \<bar>m - n\<bar> / 2" unfolding d by simp
  have "\<bar>x - y\<bar> < 1 \<longleftrightarrow> (of_int \<bar>m - n\<bar> :: real) < of_int 2"
    unfolding a by simp
  also have "\<dots> \<longleftrightarrow> \<bar>m - n\<bar> < 2"
    by (simp only: of_int_less_iff)
  also have "\<dots> \<longleftrightarrow> \<not> \<bar>m - n\<bar> > 1" by linarith
  also have "\<dots> \<longleftrightarrow> \<not> (of_int \<bar>m - n\<bar> :: real) > of_int 1"
    by (simp only: of_int_less_iff)
  also have "\<dots> \<longleftrightarrow> \<not> \<bar>x - y\<bar> > 0.5"
    unfolding a by simp
  finally show ?thesis .
qed

lemma row_kept_iff:
  assumes "list_all is_bond_order r1" and "list_all is_bond_order r2"
  shows "list_all (\<lambda>(x, y). \<bar>x - y\<bar> < 1) (zip r1 r2)
         \<longleftrightarrow> \<not> list_ex (\<lambda>(x, y). \<bar>x - y\<bar> > 0.5) (zip r1 r2)"
  using assms
proof (induction r1 arbitrary: r2)
  case Nil
  then show ?case by simp
next
  case (Cons x xs)
  show ?case
  proof (cases r2)
    case Nil
    then show ?thesis by simp
  next
    case (Cons y ys)
    with Cons.prems Cons.IH[of ys] half_steps[of x y] show ?thesis by simp
  qed
qed

lemma bond_orders_kept_iff:
  assumes "bond_order_matrix a" and "bond_order_matrix b"
  shows "bond_orders_kept a b \<longleftrightarrow> \<not> bond_order_changed a b"
  using assms
proof (induction a arbitrary: b)
  case Nil
  then show ?case by (simp add: bond_orders_kept_def bond_order_changed_def)
next
  case (Cons r rs)
  show ?case
  proof (cases b)
    case Nil
    then show ?thesis by (simp add: bond_orders_kept_def bond_order_changed_def)
  next
    case (Cons s ss)
    with Cons.prems Cons.IH[of ss] row_kept_iff[of r s] show ?thesis
      by (simp add: bond_orders_kept_def bond_order_changed_def bond_order_matrix_def)
  qed
qed

text \<open>What a round of the loop can do to the list of valid molecules.\<close>

lemma except_clauses_valid_molecules:
  "except_clauses L e = Inr L' \<Longrightarrow> valid_molecules L' = valid_molecules L"
  by (auto simp: except_clauses_def count_def split: if_splits)

lemma validity_body_valid_molecules:
  assumes "validity_body strict L im = Inr L'"
  shows "valid_molecules L' = valid_molecules L
       \<or> (valid_molecules L' = valid_molecules L @ [snd im]
           \<and> category_of strict (snd im) = Some passed)"
proof (cases "rdkit_mol (snd im)")
  case None
  with assms show ?thesis by (simp add: validity_body_def)
next
  case (Some rd)
  note rd = Some
  show ?thesis
  proof (cases "mol_frags rd")
    case (Inl e)
    with rd assms have "except_clauses L e = Inr L'" by (simp add: validity_body_def)
    then show ?thesis using except_clauses_valid_molecules by blast
  next
    case (Inr n)
    note fr = Inr
    let ?L1 = "L\<lparr>num_components := num_components L @ [n]\<rparr>"
    consider (many) "n > 1" | (zero) "n = 0" | (one) "n = 1" by linarith
    then show ?thesis
    proof cases
      case many
      with rd fr assms show ?thesis by (auto simp: validity_body_def Let_def count_def)
    next
      case zero
      with rd fr assms show ?thesis by (simp add: validity_body_def Let_def)
    next
      case one
      show ?thesis
      proof (cases "sanitize_frag rd")
        case (Some e)
        with rd fr one assms have "except_clauses ?L1 e = Inr L'"
          by (simp add: validity_body_def Let_def)
        then show ?thesis using except_clauses_valid_molecules[of ?L1 e L'] by simp
      next
        case None
        note sn = None
        consider (ih) "sum_list (implicit_hs rd) > 0"
          | (bo) "\<not> sum_list (implicit_hs rd) > 0"
                 "strict \<and> \<not> bond_orders_kept (initial_adj rd) (adj2 rd)"
          | (ra) "\<not> sum_list (implicit_hs rd) > 0"
                 "\<not> (strict \<and> \<not> bond_orders_kept (initial_adj rd) (adj2 rd))"
                 "strict \<and> sum_list (radical_electrons rd) > 0"
          | (ok) "\<not> sum_list (implicit_hs rd) > 0"
                 "\<not> (strict \<and> \<not> bond_orders_kept (initial_adj rd) (adj2 rd))"
                 "\<not> (strict \<and> sum_list (radical_electrons rd) > 0)"
          by blast
        then show ?thesis
        proof cases
          case ih
          with rd fr one sn assms show ?thesis
            by (auto simp add: validity_body_def Let_def count_def simp del: sum_list_eq_0_iff)
        next
          case bo
          with rd fr one sn assms show ?thesis
            by (auto simp add: validity_body_def Let_def count_def simp del: sum_list_eq_0_iff)
        next
          case ra
          with rd fr one sn assms show ?thesis
            by (auto simp add: validity_body_def Let_def count_def simp del: sum_list_eq_0_iff)
        next
          case ok
          with rd fr one sn assms show ?thesis
            by (auto simp add: validity_body_def category_of_def Let_def count_def
                     simp del: sum_list_eq_0_iff)
        qed
      qed
    qed
  qed
qed

lemma validity_for_valid_molecules:
  assumes "validity_for strict L ims = Inr L'"
  shows "set (valid_molecules L') \<subseteq>
           set (valid_molecules L) \<union> {m. category_of strict m = Some passed}"
  using assms
proof (induction ims arbitrary: L)
  case Nil
  then show ?case by simp
next
  case (Cons im ims)
  then obtain L1 where b: "validity_body strict L im = Inr L1"
    and f: "validity_for strict L1 ims = Inr L'"
    by (auto simp: bind_err_def split: sum.splits)
  from validity_body_valid_molecules[OF b]
  have "set (valid_molecules L1) \<subseteq>
          set (valid_molecules L) \<union> {m. category_of strict m = Some passed}"
    by auto
  with Cons.IH[OF f] show ?case by blast
qed

text \<open>Only molecules that pass every check are returned as valid.\<close>

lemma compute_validity_returns_passed:
  assumes "compute_validity E st generated local_rank strict = Inr (r, st')"
    and "mol \<in> set (fst (snd r))"
  shows "category_of strict mol = Some passed"
proof -
  from assms(1) obtain L where
    f: "validity_for strict validity_loop_init (List.enumerate 0 generated) = Inr L"
    and r: "fst (snd r) = map snd (filter (\<lambda>im. fst im \<notin> set (snd (canonicalize_list E True
                (valid_smiles L)))) (List.enumerate 0 (valid_molecules L)))"
    by (auto simp: compute_validity_def bind_err_def Let_def split: sum.splits if_splits)
  have "set (fst (snd r)) \<subseteq> set (valid_molecules L)"
    unfolding r by (auto simp: enumerate_eq_zip dest: set_zip_rightD)
  moreover have "set (valid_molecules L) \<subseteq> {m. category_of strict m = Some passed}"
    using validity_for_valid_molecules[OF f] by (simp add: validity_loop_init_def)
  ultimately show ?thesis using assms(2) by blast
qed

lemma category_of_survivor:
  assumes rd: "rdkit_mol mol = Some rd"
    and frag: "mol_frags rd = Inr 1"
    and san: "sanitize_frag rd = None"
  shows "category_of True mol =
           Some (if sum_list (implicit_hs rd) > 0 then implicit_hydrogens
                 else if \<not> bond_orders_kept (initial_adj rd) (adj2 rd) then wrong_bo
                 else if sum_list (radical_electrons rd) > 0 then radicals
                 else passed)"
  using assms by (simp add: category_of_def del: sum_list_eq_0_iff)

lemma validity_body_survivor:
  assumes rd: "rdkit_mol mol = Some rd"
    and frag: "mol_frags rd = Inr 1"
    and san: "sanitize_frag rd = None"
  shows "validity_body True L (i, mol) =
     (let L1 = L\<lparr>num_components := num_components L @ [1]\<rparr> in
      if sum_list (implicit_hs rd) > 0 then Inr (count L1 implicit_hydrogens)
      else if \<not> bond_orders_kept (initial_adj rd) (adj2 rd) then Inr (count L1 wrong_bo)
      else if sum_list (radical_electrons rd) > 0 then Inr (count L1 radicals)
      else Inr (count
             (L1\<lparr>valid_smiles := valid_smiles L1 @ [smiles rd],
                 valid_ids := valid_ids L1 @ [i],
                 valid_molecules := valid_molecules L1 @ [mol]\<rparr>) passed))"
  using assms by (simp add: validity_body_def Let_def del: sum_list_eq_0_iff)

lemma upd_neq: "c \<noteq> d \<Longrightarrow> (f :: counter)(c := Suc (f c)) \<noteq> f(d := Suc (f d))"
  by (metis fun_upd_apply n_not_Suc_n)

text \<open>
  Claim C3, as amended.  In strict mode, take a molecule with one fragment that
  sanitizes without an exception.  A round of the loop of \<open>compute_validity\<close> on it
  returns, and it excludes the molecule (counts it under the category and appends
  nothing to the valid SMILES, indices and molecules)
  \<^item> with \<open>implicit_hydrogens\<close> exactly when implicit hydrogens remain;
  \<^item> with \<open>wrong_bo\<close> exactly when none remain and some entry of the bond-order
    matrix changes by more than 0.5 between the two matrices;
  \<^item> with \<open>radicals\<close> exactly when none remain, no entry changes by more than 0.5
    and the count of unpaired electrons is above 0;

  and it keeps the molecule as valid exactly when none of the three holds.  Whatever the
  batch, a molecule that \<open>compute_validity\<close> returns as valid has none of the three.
\<close>

theorem strict_checks:
  assumes rd: "rdkit_mol mol = Some rd"
    and frag: "mol_frags rd = Inr 1"
    and san: "sanitize_frag rd = None"
    and m1: "bond_order_matrix (initial_adj rd)"
    and m2: "bond_order_matrix (adj2 rd)"
  shows "(\<exists>L'. validity_body True L (i, mol) = Inr L'
      \<and> (excluded_as L L' implicit_hydrogens \<longleftrightarrow> sum_list (implicit_hs rd) > 0)
      \<and> (excluded_as L L' wrong_bo \<longleftrightarrow>
            sum_list (implicit_hs rd) = 0
            \<and> bond_order_changed (initial_adj rd) (adj2 rd))
      \<and> (excluded_as L L' radicals \<longleftrightarrow>
            sum_list (implicit_hs rd) = 0
            \<and> \<not> bond_order_changed (initial_adj rd) (adj2 rd)
            \<and> sum_list (radical_electrons rd) > 0)
      \<and> (kept_as_valid L L' i mol (smiles rd) \<longleftrightarrow>
            sum_list (implicit_hs rd) = 0
            \<and> \<not> bond_order_changed (initial_adj rd) (adj2 rd)
            \<and> sum_list (radical_electrons rd) = 0))
    \<and> (\<forall>E st generated local_rank r st'.
          compute_validity E st generated local_rank True = Inr (r, st')
          \<and> mol \<in> set (fst (snd r))
          \<longrightarrow> sum_list (implicit_hs rd) = 0
              \<and> \<not> bond_order_changed (initial_adj rd) (adj2 rd)
              \<and> sum_list (radical_electrons rd) = 0)"
proof -
  note k = bond_orders_kept_iff[OF m1 m2]
  note body = validity_body_survivor[OF rd frag san, of L i]
  have ne: "implicit_hydrogens \<noteq> wrong_bo" "implicit_hydrogens \<noteq> radicals"
    "implicit_hydrogens \<noteq> passed" "wrong_bo \<noteq> radicals" "wrong_bo \<noteq> passed"
    "radicals \<noteq> passed" "wrong_bo \<noteq> implicit_hydrogens" "radicals \<noteq> implicit_hydrogens"
    "passed \<noteq> implicit_hydrogens" "radicals \<noteq> wrong_bo" "passed \<noteq> wrong_bo"
    "passed \<noteq> radicals"
    by simp_all
  consider (ih) "sum_list (implicit_hs rd) > 0"
    | (bo) "sum_list (implicit_hs rd) = 0" "bond_order_changed (initial_adj rd) (adj2 rd)"
    | (ra) "sum_list (implicit_hs rd) = 0" "\<not> bond_order_changed (initial_adj rd) (adj2 rd)"
           "sum_list (radical_electrons rd) > 0"
    | (ok) "sum_list (implicit_hs rd) = 0" "\<not> bond_order_changed (initial_adj rd) (adj2 rd)"
           "sum_list (radical_electrons rd) = 0"
    using not_gr_zero by blast
  then have A: "\<exists>L'. validity_body True L (i, mol) = Inr L'
      \<and> (excluded_as L L' implicit_hydrogens \<longleftrightarrow> sum_list (implicit_hs rd) > 0)
      \<and> (excluded_as L L' wrong_bo \<longleftrightarrow>
            sum_list (implicit_hs rd) = 0
            \<and> bond_order_changed (initial_adj rd) (adj2 rd))
      \<and> (excluded_as L L' radicals \<longleftrightarrow>
            sum_list (implicit_hs rd) = 0
            \<and> \<not> bond_order_changed (initial_adj rd) (adj2 rd)
            \<and> sum_list (radical_electrons rd) > 0)
      \<and> (kept_as_valid L L' i mol (smiles rd) \<longleftrightarrow>
            sum_list (implicit_hs rd) = 0
            \<and> \<not> bond_order_changed (initial_adj rd) (adj2 rd)
            \<and> sum_list (radical_electrons rd) = 0)"
  proof cases
    case ih
    then show ?thesis unfolding body Let_def
      by (simp add: excluded_as_def kept_as_valid_def count_def upd_neq del: sum_list_eq_0_iff)
  next
    case bo
    then show ?thesis unfolding body Let_def using k
      by (simp add: excluded_as_def kept_as_valid_def count_def upd_neq del: sum_list_eq_0_iff)
  next
    case ra
    then show ?thesis unfolding body Let_def using k
      by (simp add: excluded_as_def kept_as_valid_def count_def upd_neq del: sum_list_eq_0_iff)
  next
    case ok
    then show ?thesis unfolding body Let_def using k
      by (simp add: excluded_as_def kept_as_valid_def count_def upd_neq del: sum_list_eq_0_iff)
  qed
  have B: "\<forall>E st generated local_rank r st'.
          compute_validity E st generated local_rank True = Inr (r, st')
          \<and> mol \<in> set (fst (snd r))
          \<longrightarrow> sum_list (implicit_hs rd) = 0
              \<and> \<not> bond_order_changed (initial_adj rd) (adj2 rd)
              \<and> sum_list (radical_electrons rd) = 0"
  proof (intro allI impI)
    fix E st generated local_rank r st'
    assume h: "compute_validity E st generated local_rank True = Inr (r, st')
          \<and> mol \<in> set (fst (snd r))"
    then have "category_of True mol = Some passed"
      using compute_validity_returns_passed by blast
    then show "sum_list (implicit_hs rd) = 0
              \<and> \<not> bond_order_changed (initial_adj rd) (adj2 rd)
              \<and> sum_list (radical_electrons rd) = 0"
      unfolding category_of_survivor[OF rd frag san] using k
      by (simp split: if_splits del: sum_list_eq_0_iff)
  qed
  from A B show ?thesis by blast
qed


lemmas validity_eval = compute_validity_def enumerate_eq_zip validity_body_def bind_err_def
  bond_orders_kept_def count_def validity_loop_init_def all_categories_def Let_def
  canonicalize_list_def

text \<open>
  Claim C3 as stated fails, twice.  A molecule that survives fragment decomposition and
  sanitization and keeps one unpaired electron is counted under \<open>wrong_bo\<close>, not
  under \<open>radicals\<close>, when a bond order also changed by 1; and one whose bond order
  changed by 1 is counted under \<open>implicit_hydrogens\<close>, not under \<open>wrong_bo\<close>, when
  an implicit hydrogen remains.
\<close>

theorem strict_checks_counterexample:
  "mol_frags rd_changed_radical = Inr 1
   \<and> sanitize_frag rd_changed_radical = None
   \<and> sum_list (radical_electrons rd_changed_radical) = 1
   \<and> error_counts ex_env (new_metrics None) [mol_of rd_changed_radical] 0 True
       = Some [0, 0, 1, 0, 0, 0, 0, 0]
   \<and> mol_frags rd_changed_implicit = Inr 1
   \<and> sanitize_frag rd_changed_implicit = None
   \<and> bond_order_changed (initial_adj rd_changed_implicit) (adj2 rd_changed_implicit)
   \<and> error_counts ex_env (new_metrics None) [mol_of rd_changed_implicit] 0 True
       = Some [0, 1, 0, 0, 0, 0, 0, 0]"
  by (simp add: error_counts_def ex_defs validity_eval bond_order_changed_def)

text \<open>
  The molecule with a changed bond order and a radical is excluded with \<open>wrong_bo\<close>;
  of a batch of it and a kekulized aromatic bond (a change of 0.5), only the second is
  returned.
\<close>

theorem strict_checks_witness:
  "rdkit_mol (mol_of rd_changed_radical) = Some rd_changed_radical
   \<and> mol_frags rd_changed_radical = Inr 1 \<and> sanitize_frag rd_changed_radical = None
   \<and> bond_order_matrix (initial_adj rd_changed_radical)
   \<and> bond_order_matrix (adj2 rd_changed_radical)
   \<and> bond_order_changed (initial_adj rd_changed_radical) (adj2 rd_changed_radical)
   \<and> sum_list (implicit_hs rd_changed_radical) = 0
   \<and> (\<exists>L'. validity_body True validity_loop_init (0, mol_of rd_changed_radical) = Inr L'
          \<and> excluded_as validity_loop_init L' wrong_bo
          \<and> \<not> excluded_as validity_loop_init L' radicals
          \<and> \<not> kept_as_valid validity_loop_init L' 0 (mol_of rd_changed_radical)
                 (smiles rd_changed_radical))
   \<and> returned_valid ex_env (new_metrics None)
         [mol_of rd_changed_radical, mol_of rd_kekulized] 0 True
       = Some [mol_of rd_kekulized]"
proof -
  have rd: "rdkit_mol (mol_of rd_changed_radical) = Some rd_changed_radical"
    by (simp add: ex_defs)
  have frag: "mol_frags rd_changed_radical = Inr 1" by (simp add: ex_defs)
  have san: "sanitize_frag rd_changed_radical = None" by (simp add: ex_defs)
  have m1: "bond_order_matrix (initial_adj rd_changed_radical)"
    by (simp add: ex_defs bond_order_matrix_def is_bond_order_def)
  have m2: "bond_order_matrix (adj2 rd_changed_radical)"
    by (simp add: ex_defs bond_order_matrix_def is_bond_order_def)
  have ch: "bond_order_changed (initial_adj rd_changed_radical) (adj2 rd_changed_radical)"
    by (simp add: ex_defs bond_order_changed_def)
  have hs: "sum_list (implicit_hs rd_changed_radical) = 0" by (simp add: ex_defs)
  have rv: "returned_valid ex_env (new_metrics None)
         [mol_of rd_changed_radical, mol_of rd_kekulized] 0 True
       = Some [mol_of rd_kekulized]"
    by (simp add: returned_valid_def ex_defs validity_eval ex_env_def List.map_filter_def)
  from strict_checks[OF rd frag san m1 m2, of validity_loop_init 0]
  obtain L' where
    "validity_body True validity_loop_init (0, mol_of rd_changed_radical) = Inr L'"
    "excluded_as validity_loop_init L' wrong_bo \<longleftrightarrow>
            sum_list (implicit_hs rd_changed_radical) = 0
            \<and> bond_order_changed (initial_adj rd_changed_radical) (adj2 rd_changed_radical)"
    "excluded_as validity_loop_init L' radicals \<longleftrightarrow>
            sum_list (implicit_hs rd_changed_radical) = 0
            \<and> \<not> bond_order_changed (initial_adj rd_changed_radical) (adj2 rd_changed_radical)
            \<and> sum_list (radical_electrons rd_changed_radical) > 0"
    "kept_as_valid validity_loop_init L' 0 (mol_of rd_changed_radical)
        (smiles rd_changed_radical) \<longleftrightarrow>
            sum_list (implicit_hs rd_changed_radical) = 0
            \<and> \<not> bond_order_changed (initial_adj rd_changed_radical) (adj2 rd_changed_radical)
            \<and> sum_list (radical_electrons rd_changed_radical) = 0"
    by blast
  then have "\<exists>L'. validity_body True validity_loop_init (0, mol_of rd_changed_radical) = Inr L'
          \<and> excluded_as validity_loop_init L' wrong_bo
          \<and> \<not> excluded_as validity_loop_init L' radicals
          \<and> \<not> kept_as_valid validity_loop_init L' 0 (mol_of rd_changed_radical)
                 (smiles rd_changed_radical)"
    using ch hs by blast
  then show ?thesis using rd frag san m1 m2 ch hs rv by blast
qed


section \<open>Properties of compute_statistics\<close>

text \<open>
  Claim C5.  When the first molecule carries bond types, \<open>compute_statistics\<close>
  returns, and the value it feeds to the angle accumulator and reports under
  \<open>sampling/AnglesW1\<close> is the result of \<open>angle_distance\<close> if and only if the
  sparsity level answered by \<open>bond_types_distance\<close> is at least 0.7; below 0.7 it is
  the fixed value 0, with \<open>-1\<close> for every atom type, whatever \<open>angle_distance\<close>
  would answer.
\<close>

theorem angle_distance_cutoff:
  assumes ms: "molecules = m0 # rest" and bt: "bond_types m0 \<noteq> None"
  shows "\<exists>statistics_log st'.
       compute_statistics E st molecules local_rank = Inr (statistics_log, st')
     \<and> angles_w1 st' =
         mean_update (angles_w1 st)
           (if 0.7 \<le> snd (bond_types_distance E molecules)
            then fst (angle_distance E molecules) else 0) 1
     \<and> map_of statistics_log ''sampling/AnglesW1'' = Some (mean_compute (angles_w1 st'))
     \<and> fst (angles_branch E sta molecules s local_rank) =
         (if 0.7 \<le> s then angle_distance E molecules
          else (0, replicate (length (atom_decoder sta)) (- 1)))"
proof -
  have a: "fst (angles_branch E sta ms s local_rank) =
         (if 0.7 \<le> s then angle_distance E ms
          else (0, replicate (length (atom_decoder sta)) (- 1)))" for ms
    by (simp add: angles_branch_def)
  have b: "angles_w1 (bonds_branch E st1 ms local_rank) =
        mean_update (angles_w1 st1)
           (if 0.7 \<le> snd (bond_types_distance E ms)
            then fst (angle_distance E ms) else 0) 1" for st1 ms
    by (simp add: bonds_branch_def angles_branch_def Let_def print_def)
  obtain bts where bts: "bond_types m0 = Some bts" using bt by auto
  have c: "\<exists>statistics_log st'.
       compute_statistics E st (m0 # rest) local_rank = Inr (statistics_log, st')
     \<and> angles_w1 st' =
         mean_update (angles_w1 st)
           (if 0.7 \<le> snd (bond_types_distance E (m0 # rest))
            then fst (angle_distance E (m0 # rest)) else 0) 1
     \<and> map_of statistics_log ''sampling/AnglesW1'' = Some (mean_compute (angles_w1 st'))"
    unfolding compute_statistics_def Let_def
    by (simp only: list.case bts option.distinct not_False_eq_True not_True_eq_False
          if_True if_False) (simp add: b)
  show ?thesis unfolding ms using c a[of "m0 # rest"] by blast
qed

text \<open>At exactly 0.7 the distance is computed; at 0.6999 it is not.\<close>

theorem angle_distance_cutoff_witness:
  "bond_types (mol_of rd_ethane) = Some [[0, 1], [1, 0]]
   \<and> snd (bond_types_distance ex_env [mol_of rd_ethane]) = 0.7
   \<and> reported_statistic ex_env (new_metrics None) [mol_of rd_ethane] ''sampling/AnglesW1''
       = Some (PyFloat (1 / 4))
   \<and> snd (bond_types_distance ex_env_sparse [mol_of rd_ethane]) = 0.6999
   \<and> reported_statistic ex_env_sparse (new_metrics None) [mol_of rd_ethane]
         ''sampling/AnglesW1'' = Some (PyFloat 0)"
proof -
  have bt: "bond_types (mol_of rd_ethane) \<noteq> None" by (simp add: mol_of_def)
  have f: "angles_w1 (new_metrics None) = mean_fresh" by (simp add: new_metrics_def)
  from angle_distance_cutoff[where E=ex_env and st="new_metrics None" and local_rank=0
         and rest="[]" and sta="new_metrics None" and s=0, OF refl bt]
  obtain lg st' where
    "compute_statistics ex_env (new_metrics None) [mol_of rd_ethane] 0 = Inr (lg, st')"
    "angles_w1 st' = mean_update (angles_w1 (new_metrics None))
           (if 0.7 \<le> snd (bond_types_distance ex_env [mol_of rd_ethane])
            then fst (angle_distance ex_env [mol_of rd_ethane]) else 0) 1"
    "map_of lg ''sampling/AnglesW1'' = Some (mean_compute (angles_w1 st'))"
    by blast
  then have 1: "reported_statistic ex_env (new_metrics None) [mol_of rd_ethane]
       ''sampling/AnglesW1'' = Some (PyFloat (1 / 4))"
    by (simp add: reported_statistic_def f ex_env_def mean_update_def mean_fresh_def
          mean_compute_def)
  from angle_distance_cutoff[where E=ex_env_sparse and st="new_metrics None" and local_rank=0
         and rest="[]" and sta="new_metrics None" and s=0, OF refl bt]
  obtain lg st' where
    "compute_statistics ex_env_sparse (new_metrics None) [mol_of rd_ethane] 0 = Inr (lg, st')"
    "angles_w1 st' = mean_update (angles_w1 (new_metrics None))
           (if 0.7 \<le> snd (bond_types_distance ex_env_sparse [mol_of rd_ethane])
            then fst (angle_distance ex_env_sparse [mol_of rd_ethane]) else 0) 1"
    "map_of lg ''sampling/AnglesW1'' = Some (mean_compute (angles_w1 st'))"
    by blast
  then have 2: "reported_statistic ex_env_sparse (new_metrics None) [mol_of rd_ethane]
         ''sampling/AnglesW1'' = Some (PyFloat 0)"
    by (simp add: reported_statistic_def f ex_env_sparse_def ex_env_def mean_update_def
          mean_fresh_def mean_compute_def)
  show ?thesis using 1 2 by (simp add: mol_of_def ex_env_sparse_def ex_env_def)
qed


section \<open>Properties of the similarity scores\<close>







section \<open>Properties of get_kl_divergence\<close>

lemma column_Inr: "column d i = Inr c \<Longrightarrow> c = map (\<lambda>row. row ! i) d"
  by (auto simp: column_def split: if_splits)

lemma kldiv_loop_Inr:
  "kldiv_loop f dc ds kl is = Inr kl' \<Longrightarrow>
   kl' = foldl (\<lambda>k i. AList.update (pc_descriptor_subset ! i) (f (map (\<lambda>row. row ! i) dc) (map (\<lambda>row. row ! i) ds)) k) kl is"
proof (induction "is" arbitrary: kl)
  case Nil
  then show ?case by simp
next
  case (Cons i rest)
  from Cons.prems obtain b s where b: "column dc i = Inr b" and s: "column ds i = Inr s"
    and r: "kldiv_loop f dc ds (AList.update (pc_descriptor_subset ! i) (f b s) kl) rest = Inr kl'"
    by (auto simp: bind_err_def split: sum.splits)
  from Cons.IH[OF r] column_Inr[OF b] column_Inr[OF s] show ?case by simp
qed

lemma upt_0_4: "[0..<4] = [0, 1, 2, 3]"
  by (simp add: upt_rec numeral_eq_Suc)

lemma upt_4_9: "[4..<9] = [4, 5, 6, 7, 8]"
  by (simp add: upt_rec numeral_eq_Suc)

lemma max_axis1_Inr: "max_axis1 rows = Inr m \<Longrightarrow> m = map (\<lambda>r. Max (set r)) rows"
  by (auto simp: max_axis1_def split: if_splits)


lemma sum_exp_le: "\<forall>v\<in>set vs. 0 \<le> v \<Longrightarrow> sum_list (map (\<lambda>v. exp (- v)) vs) \<le> real (length vs)"
proof (induction vs)
  case Nil
  then show ?case by simp
next
  case (Cons v vs)
  then have e: "exp (- v) \<le> 1" by simp
  from Cons have ih: "sum_list (map (\<lambda>v. exp (- v)) vs) \<le> real (length vs)" by simp
  from e ih have "exp (- v) + sum_list (map (\<lambda>v. exp (- v)) vs) \<le> 1 + real (length vs)"
    by (rule add_mono)
  then show ?case by simp
qed

lemma sum_exp_pos: "vs \<noteq> [] \<Longrightarrow> 0 < sum_list (map (\<lambda>v. exp (- v :: real)) vs)"
proof (induction vs)
  case Nil
  then show ?case by simp
next
  case (Cons v vs)
  have "0 \<le> sum_list (map (\<lambda>v. exp (- v)) vs)"
    by (rule sum_list_nonneg) auto
  moreover have "0 < exp (- v)" by simp
  ultimately show ?case by (simp add: add_pos_nonneg)
qed

text \<open>
  Claim C9.  When \<open>get_kl_divergence\<close> raises nothing, its dictionary holds exactly
  ten KL values: one per descriptor, continuous for the first four and discrete for the
  other five, and one continuous value between the internal similarities.  The score is
  the arithmetic mean of \<open>exp (- v)\<close> over the ten values \<open>v\<close>, and it lies in
  \<open>(0, 1]\<close> when every value is nonnegative.
\<close>

theorem kl_divergence_score:
  assumes tab: "kldivs_table E st generated_smiles = Inr kldivs"
  shows "(\<exists>train_sub. train_subset st = Some train_sub
          \<and> kldivs =
              (let unique_molecules = fst (canonicalize_list E False generated_smiles);
                   d_sampled = calculate_pc_descriptors E unique_molecules pc_descriptor_subset;
                   d_chembl = calculate_pc_descriptors E train_sub pc_descriptor_subset
               in zip (pc_descriptor_subset @ [''internal_similarity''])
                    (map (\<lambda>i. continuous_kldiv E (map (\<lambda>row. row ! i) d_chembl)
                                               (map (\<lambda>row. row ! i) d_sampled)) [0..<4]
                     @ map (\<lambda>i. discrete_kldiv E (map (\<lambda>row. row ! i) d_chembl)
                                               (map (\<lambda>row. row ! i) d_sampled)) [4..<9]
                     @ [continuous_kldiv E
                          (map (\<lambda>r. Max (set r))
                             (calculate_internal_pairwise_similarities E train_sub))
                          (map (\<lambda>r. Max (set r))
                             (calculate_internal_pairwise_similarities E unique_molecules))])))
       \<and> length kldivs = 10
       \<and> get_kl_divergence E st generated_smiles =
             Inr (sum_list (map (\<lambda>v. exp (- v)) (map snd kldivs)) / 10)
       \<and> ((\<forall>v\<in>set (map snd kldivs). 0 \<le> v) \<longrightarrow>
            (\<exists>score. get_kl_divergence E st generated_smiles = Inr score
                     \<and> 0 < score \<and> score \<le> 1))"
proof -
  from tab obtain ts where ts: "train_subset st = Some ts"
    by (auto simp: kldivs_table_def split: option.splits)
  define um where "um = fst (canonicalize_list E False generated_smiles)"
  define ds where "ds = calculate_pc_descriptors E um pc_descriptor_subset"
  define dc where "dc = calculate_pc_descriptors E ts pc_descriptor_subset"
  from tab ts obtain k1 k2 cs ss where
    k1: "kldiv_loop (continuous_kldiv E) dc ds [] [0..<4] = Inr k1"
    and k2: "kldiv_loop (discrete_kldiv E) dc ds k1 [4..<9] = Inr k2"
    and cs: "max_axis1 (calculate_internal_pairwise_similarities E ts) = Inr cs"
    and ss: "max_axis1 (calculate_internal_pairwise_similarities E um) = Inr ss"
    and kl: "kldivs = AList.update ''internal_similarity'' (continuous_kldiv E cs ss) k2"
    unfolding kldivs_table_def um_def ds_def dc_def
    by (auto simp: bind_err_def Let_def split: sum.splits)
  have form: "kldivs =
       zip (pc_descriptor_subset @ [''internal_similarity''])
         (map (\<lambda>i. continuous_kldiv E (map (\<lambda>row. row ! i) dc) (map (\<lambda>row. row ! i) ds)) [0..<4]
          @ map (\<lambda>i. discrete_kldiv E (map (\<lambda>row. row ! i) dc) (map (\<lambda>row. row ! i) ds)) [4..<9]
          @ [continuous_kldiv E
               (map (\<lambda>r. Max (set r)) (calculate_internal_pairwise_similarities E ts))
               (map (\<lambda>r. Max (set r)) (calculate_internal_pairwise_similarities E um))])"
    unfolding kl kldiv_loop_Inr[OF k2] kldiv_loop_Inr[OF k1]
      max_axis1_Inr[OF cs] max_axis1_Inr[OF ss] upt_0_4 upt_4_9
    by (simp add: pc_descriptor_subset_def)
  have len: "length kldivs = 10"
    unfolding form upt_0_4 upt_4_9 by (simp add: pc_descriptor_subset_def)
  have ne: "map snd kldivs \<noteq> []" using len by auto
  have score: "get_kl_divergence E st generated_smiles =
             Inr (sum_list (map (\<lambda>v. exp (- v)) (map snd kldivs)) / 10)"
    using tab len by (simp add: get_kl_divergence_def bind_err_def Let_def)
  have bound: "0 < sum_list (map (\<lambda>v. exp (- v)) (map snd kldivs)) / 10
       \<and> sum_list (map (\<lambda>v. exp (- v)) (map snd kldivs)) / 10 \<le> 1"
    if nn: "\<forall>v\<in>set (map snd kldivs). 0 \<le> v"
    using sum_exp_le[OF nn] sum_exp_pos[OF ne] len by simp
  have "\<exists>train_sub. train_subset st = Some train_sub
          \<and> kldivs =
              (let unique_molecules = fst (canonicalize_list E False generated_smiles);
                   d_sampled = calculate_pc_descriptors E unique_molecules pc_descriptor_subset;
                   d_chembl = calculate_pc_descriptors E train_sub pc_descriptor_subset
               in zip (pc_descriptor_subset @ [''internal_similarity''])
                    (map (\<lambda>i. continuous_kldiv E (map (\<lambda>row. row ! i) d_chembl)
                                               (map (\<lambda>row. row ! i) d_sampled)) [0..<4]
                     @ map (\<lambda>i. discrete_kldiv E (map (\<lambda>row. row ! i) d_chembl)
                                               (map (\<lambda>row. row ! i) d_sampled)) [4..<9]
                     @ [continuous_kldiv E
                          (map (\<lambda>r. Max (set r))
                             (calculate_internal_pairwise_similarities E train_sub))
                          (map (\<lambda>r. Max (set r))
                             (calculate_internal_pairwise_similarities E unique_molecules))]))"
    using ts form unfolding Let_def um_def ds_def dc_def by blast
  with len score bound show ?thesis by blast
qed


text \<open>Ten KL values of 0 give the score 1.\<close>

theorem kl_divergence_score_witness:
  "kldivs_table ex_env ((new_metrics (Some [''CC'']))\<lparr>train_subset := Some [''CC'']\<rparr>) [''CC'']
     = Inr (map (\<lambda>name. (name, 0)) (pc_descriptor_subset @ [''internal_similarity'']))
   \<and> get_kl_divergence ex_env ((new_metrics (Some [''CC'']))\<lparr>train_subset := Some [''CC'']\<rparr>)
         [''CC''] = Inr 1"
proof -
  let ?st = "(new_metrics (Some [''CC'']))\<lparr>train_subset := Some [''CC'']\<rparr>"
  have tab: "kldivs_table ex_env ?st [''CC'']
     = Inr (map (\<lambda>name. (name, 0)) (pc_descriptor_subset @ [''internal_similarity'']))"
    unfolding kldivs_table_def upt_0_4 upt_4_9
    by (simp add: new_metrics_def ex_env_def canonicalize_list_def List.map_filter_def
          pc_descriptor_subset_def bind_err_def column_def max_axis1_def)
  from kl_divergence_score[OF tab]
  have "get_kl_divergence ex_env ?st [''CC''] =
          Inr (sum_list (map (\<lambda>v. exp (- v))
                 (map snd (map (\<lambda>name. (name, 0 :: real))
                    (pc_descriptor_subset @ [''internal_similarity''])))) / 10)"
    by blast
  then have "get_kl_divergence ex_env ?st [''CC''] = Inr 1"
    by (simp add: pc_descriptor_subset_def)
  with tab show ?thesis by blast
qed


section \<open>Properties of evaluate and of the call\<close>











end
